theory Spec2Isabelle
  imports Main
begin

section \<open>The world the script acts on\<close>

text \<open>
  The script \<open>Testprojects/generate_reports.py\<close> is sequential process orchestration: it
  creates directories, deletes files, starts external programs and looks at the files they
  leave behind. Its state is the filesystem, what it has printed and which subprocesses it
  has started.

  A path is the list of its components below the filesystem root, so \<open>Path.parent\<close> is
  \<open>butlast\<close> (the parent of the root is the root) and \<open>p / "a/b"\<close> appends the components
  \<open>a\<close> and \<open>b\<close>. The filesystem is a map from paths to nodes; every node has the size
  that \<open>stat().st_size\<close> reports. Permissions, symbolic links and errors of path
  resolution other than the ones written out below are outside the model.
\<close>

type_synonym path = "string list"

datatype node = File nat | Dir nat

type_synonym filesystem = "path \<rightharpoonup> node"

text \<open>The first argument of \<open>run_command\<close>: a \<open>str\<close> or a list of \<open>str\<close>.\<close>

datatype command = CmdStr string | CmdList "string list"

text \<open>
  What \<open>subprocess.run(..., check=False)\<close> does: it raises \<open>FileNotFoundError\<close>, raises
  another exception, or returns with a return code and the captured streams.
\<close>

datatype proc_outcome =
    RaisedFileNotFound
  | RaisedOther string
  | Completed int string string

text \<open>One record per call of \<open>subprocess.run\<close>, in the order of the calls.\<close>

record call =
  c_cmd :: command
  c_cwd :: "path option"
  c_shell :: bool
  c_fs_before :: filesystem
  c_outcome :: proc_outcome
  c_fs_after :: filesystem

text \<open>
  The external programs and the operating system are a parameter: given the calls made so
  far, the filesystem, the command, the working directory and the shell flag, \<open>run_proc\<close>
  says how \<open>subprocess.run\<close> ends and what the filesystem is afterwards; \<open>new_dir_size\<close>
  is the size the operating system reports for a directory it has just created.
\<close>

record env =
  run_proc :: "call list \<Rightarrow> filesystem \<Rightarrow> command \<Rightarrow> path option \<Rightarrow> bool
               \<Rightarrow> proc_outcome \<times> filesystem"
  new_dir_size :: nat

datatype oserror =
    FileNotFoundError
  | FileExistsError
  | NotADirectoryError
  | IsADirectoryError

datatype stream = Stdout | Stderr

text \<open>
  The lines the script prints, one constructor per \<open>print\<close> of the source, carrying the
  values its f-string interpolates. \<open>Text\<close> is a line without interpolation.
\<close>

datatype msg =
    ShellNeedsString command
  | NonShellNeedsList command
  | Executing string string
  | InDir path
  | StdoutFrom string string
  | StderrFrom string string
  | ErrorExecuting string command
  | ReturnCode int
  | CommandNotFound command
  | UnexpectedError string string
  | ErrorCreatingDir path oserror
  | NotGenerated string path
  | Generated string path
  | GoProjectNotFound path
  | GoMainNotFound path
  | DllNotFound path
  | Traceback string
  | Text string

record world =
  files :: filesystem
  out :: "(stream \<times> msg) list"
  calls :: "call list"

section \<open>Control flow: \<open>sys.exit\<close> as a result\<close>

text \<open>
  A statement either returns a value or ends the process with an exit code
  (\<open>sys.exit(n)\<close> raises \<open>SystemExit\<close>, which no handler of the script catches:
  \<open>except Exception\<close> does not). Either way it leaves a world behind.
\<close>

datatype 'a outcome = Ret 'a | Exit int

type_synonym 'a prog = "world \<Rightarrow> 'a outcome \<times> world"

definition ret :: "'a \<Rightarrow> 'a prog" where
  "ret x = (\<lambda>w. (Ret x, w))"

definition sys_exit :: "int \<Rightarrow> 'a prog" where
  "sys_exit n = (\<lambda>w. (Exit n, w))"

definition bindP :: "'a prog \<Rightarrow> ('a \<Rightarrow> 'b prog) \<Rightarrow> 'b prog" where
  "bindP m k = (\<lambda>w. case m w of
                     (Ret x, w') \<Rightarrow> k x w'
                   | (Exit n, w') \<Rightarrow> (Exit n, w'))"

definition print :: "stream \<Rightarrow> msg \<Rightarrow> unit prog" where
  "print s m = (\<lambda>w. (Ret (), w\<lparr>out := out w @ [(s, m)]\<rparr>))"

text \<open>An exception nobody catches: Python prints the traceback and exits with status 1.\<close>

definition uncaught :: "string \<Rightarrow> 'a prog" where
  "uncaught e = bindP (print Stderr (Traceback e)) (\<lambda>_. sys_exit 1)"

text \<open>The exit status of the process: 0 when \<open>main\<close> returns.\<close>

definition exit_status :: "'a outcome \<Rightarrow> int" where
  "exit_status r = (case r of Ret _ \<Rightarrow> 0 | Exit n \<Rightarrow> n)"

section \<open>Library operations the script calls\<close>

subsection \<open>Strings\<close>

text \<open>
  \<open>str.strip()\<close> removes leading and trailing whitespace; on 8-bit characters that is
  tab to carriage return, the four separators 0x1C to 0x1F, and the space.
\<close>

definition is_space :: "char \<Rightarrow> bool" where
  "is_space c = (let n = (of_char c :: nat) in (9 \<le> n \<and> n \<le> 13) \<or> (28 \<le> n \<and> n \<le> 32))"

definition strip :: "string \<Rightarrow> string" where
  "strip s = rev (dropWhile is_space (rev (dropWhile is_space s)))"

text \<open>\<open>' '.join(xs)\<close>\<close>

fun join_sp :: "string list \<Rightarrow> string" where
  "join_sp [] = []"
| "join_sp [x] = x"
| "join_sp (x # y # ys) = x @ '' '' @ join_sp (y # ys)"

text \<open>\<open>x[0]\<close> on a \<open>str\<close> or a list; \<open>None\<close> is \<open>IndexError\<close>.\<close>

fun py_first :: "command \<Rightarrow> command option" where
  "py_first (CmdList []) = None"
| "py_first (CmdList (x # _)) = Some (CmdStr x)"
| "py_first (CmdStr []) = None"
| "py_first (CmdStr (c # _)) = Some (CmdStr [c])"

text \<open>\<open>str(path)\<close>, written with the separator \<open>/\<close>, and \<open>path.name\<close>.\<close>

definition path_str :: "path \<Rightarrow> string" where
  "path_str p = (if p = [] then ''/'' else concat (map (\<lambda>c. ''/'' @ c) p))"

definition path_name :: "path \<Rightarrow> string" where
  "path_name p = (if p = [] then '''' else last p)"

subsection \<open>Paths and files\<close>

definition path_exists :: "filesystem \<Rightarrow> path \<Rightarrow> bool" where
  "path_exists fs p = (case fs p of None \<Rightarrow> False | Some _ \<Rightarrow> True)"

definition path_is_dir :: "filesystem \<Rightarrow> path \<Rightarrow> bool" where
  "path_is_dir fs p = (case fs p of Some (Dir _) \<Rightarrow> True | _ \<Rightarrow> False)"

definition path_is_file :: "filesystem \<Rightarrow> path \<Rightarrow> bool" where
  "path_is_file fs p = (case fs p of Some (File _) \<Rightarrow> True | _ \<Rightarrow> False)"

definition st_size :: "node \<Rightarrow> nat" where
  "st_size n = (case n of File k \<Rightarrow> k | Dir k \<Rightarrow> k)"

text \<open>\<open>os.mkdir\<close>: the path must be new and its parent a directory.\<close>

definition os_mkdir :: "nat \<Rightarrow> path \<Rightarrow> filesystem \<Rightarrow> oserror + filesystem" where
  "os_mkdir dsz p fs =
     (case fs p of
        Some _ \<Rightarrow> Inl FileExistsError
      | None \<Rightarrow>
          (case fs (butlast p) of
             None \<Rightarrow> Inl FileNotFoundError
           | Some (File _) \<Rightarrow> Inl NotADirectoryError
           | Some (Dir _) \<Rightarrow> Inr (fs(p \<mapsto> Dir dsz))))"

text \<open>
  \<open>Path.mkdir(parents=False, exist_ok=True)\<close>: \<open>FileNotFoundError\<close> is raised again
  (no parents), any other \<open>OSError\<close> is raised again unless the path is a directory.
\<close>

definition mkdir_exist_ok :: "nat \<Rightarrow> path \<Rightarrow> filesystem \<Rightarrow> oserror + filesystem" where
  "mkdir_exist_ok dsz p fs =
     (case os_mkdir dsz p fs of
        Inr fs' \<Rightarrow> Inr fs'
      | Inl e \<Rightarrow>
          if e = FileNotFoundError then Inl e
          else if path_is_dir fs p then Inr fs
          else Inl e)"

text \<open>
  \<open>Path.mkdir(parents=True, exist_ok=True)\<close>, as pathlib writes it: try \<open>os.mkdir\<close>; on
  \<open>FileNotFoundError\<close> create the parent the same way and then the path without
  \<open>parents\<close>; on any other \<open>OSError\<close> accept an existing directory.
\<close>

function mkdir_parents :: "nat \<Rightarrow> path \<Rightarrow> filesystem \<Rightarrow> oserror + filesystem" where
  "mkdir_parents dsz p fs =
     (case os_mkdir dsz p fs of
        Inr fs' \<Rightarrow> Inr fs'
      | Inl e \<Rightarrow>
          if e = FileNotFoundError then
            (if butlast p = p then Inl e
             else (case mkdir_parents dsz (butlast p) fs of
                     Inl e' \<Rightarrow> Inl e'
                   | Inr fs1 \<Rightarrow> mkdir_exist_ok dsz p fs1))
          else if path_is_dir fs p then Inr fs
          else Inl e)"
  by pat_completeness auto
termination
proof (relation "measure (\<lambda>(dsz, p, fs). length p)")
  show "wf (measure (\<lambda>(dsz, p, fs). length p))" by simp
next
  fix dsz :: nat and p :: path and fs :: filesystem and e :: oserror
  assume "butlast p \<noteq> p"
  then have "p \<noteq> []" by auto
  then show "((dsz, butlast p, fs), (dsz, p, fs)) \<in> measure (\<lambda>(dsz, p, fs). length p)"
    by simp
qed

declare mkdir_parents.simps [simp del]

text \<open>
  \<open>Path.unlink(missing_ok=True)\<close>: only the absence of the path is tolerated; a
  directory cannot be unlinked.
\<close>

definition unlink_missing_ok :: "path \<Rightarrow> filesystem \<Rightarrow> oserror + filesystem" where
  "unlink_missing_ok p fs =
     (case fs p of
        None \<Rightarrow> Inr fs
      | Some (File _) \<Rightarrow> Inr (fs(p := None))
      | Some (Dir _) \<Rightarrow> Inl IsADirectoryError)"

subsection \<open>\<open>subprocess.run\<close>\<close>

definition subprocess_run :: "env \<Rightarrow> command \<Rightarrow> path option \<Rightarrow> bool \<Rightarrow> proc_outcome prog" where
  "subprocess_run ev cmd cwd shell =
     (\<lambda>w. case run_proc ev (calls w) (files w) cmd cwd shell of
             (oc, fs') \<Rightarrow>
               (Ret oc,
                w\<lparr>files := fs',
                  calls := calls w @
                    [\<lparr>c_cmd = cmd, c_cwd = cwd, c_shell = shell, c_fs_before = files w,
                      c_outcome = oc, c_fs_after = fs'\<rparr>]\<rparr>))"

section \<open>The script\<close>

subsection \<open>Path constants\<close>

text \<open>
  \<open>SCRIPT_ROOT\<close> is the directory of the script file, known only when the script runs:
  every constant below takes it as the parameter \<open>root\<close>.
\<close>

definition CSHARP_TEST_PROJECT_PATH :: "path \<Rightarrow> path" where
  "CSHARP_TEST_PROJECT_PATH root =
     root @ [''CSharp'', ''Project_DotNetCore'', ''UnitTests'', ''UnitTests.csproj'']"

definition CSHARP_COVERAGE_OUTPUT_DIR :: "path \<Rightarrow> path" where
  "CSHARP_COVERAGE_OUTPUT_DIR root = root @ [''CSharp'', ''Reports'']"

definition CSHARP_COBERTURA_XML_PATH :: "path \<Rightarrow> path" where
  "CSHARP_COBERTURA_XML_PATH root = CSHARP_COVERAGE_OUTPUT_DIR root @ [''coverage.cobertura.xml'']"

definition CSHARP_REPORTS_FROM_GO_TOOL_DIR :: "path \<Rightarrow> path" where
  "CSHARP_REPORTS_FROM_GO_TOOL_DIR root =
     butlast root @ [''reports'', ''csharp_project_go_tool_report'']"

definition CSHARP_REPORTS_FROM_DOTNET_TOOL_DIR :: "path \<Rightarrow> path" where
  "CSHARP_REPORTS_FROM_DOTNET_TOOL_DIR root =
     butlast root @ [''reports'', ''csharp_project_dotnet_tool_report'']"

definition GO_PROJECT_TO_TEST_PATH :: "path \<Rightarrow> path" where
  "GO_PROJECT_TO_TEST_PATH root = root @ [''Go'']"

definition GO_PROJECT_NATIVE_COVERAGE_FILE :: "path \<Rightarrow> path" where
  "GO_PROJECT_NATIVE_COVERAGE_FILE root = GO_PROJECT_TO_TEST_PATH root @ [''coverage.out'']"

definition GO_PROJECT_COBERTURA_XML_FILE :: "path \<Rightarrow> path" where
  "GO_PROJECT_COBERTURA_XML_FILE root =
     GO_PROJECT_TO_TEST_PATH root @ [''coverage.cobertura.xml'']"

definition GO_PROJECT_REPORTS_FROM_GO_TOOL_DIR :: "path \<Rightarrow> path" where
  "GO_PROJECT_REPORTS_FROM_GO_TOOL_DIR root =
     butlast root @ [''reports'', ''go_project_go_tool_report'']"

definition GO_PROJECT_REPORTS_FROM_DOTNET_TOOL_DIR :: "path \<Rightarrow> path" where
  "GO_PROJECT_REPORTS_FROM_DOTNET_TOOL_DIR root =
     butlast root @ [''reports'', ''go_project_dotnet_tool_report'']"

definition GO_REPORT_GENERATOR_CMD_PATH :: "path \<Rightarrow> path" where
  "GO_REPORT_GENERATOR_CMD_PATH root = butlast root @ [''go_report_generator'', ''cmd'']"

definition DOTNET_REPORT_GENERATOR_DLL_PATH :: "path \<Rightarrow> path" where
  "DOTNET_REPORT_GENERATOR_DLL_PATH root =
     butlast root @ [''src'', ''ReportGenerator.Console.NetCore'', ''bin'', ''Debug'', ''net8.0'',
                     ''ReportGenerator.dll'']"

subsection \<open>\<open>run_command\<close>\<close>

record completed_process =
  args :: command
  returncode :: int
  stdout :: string
  stderr :: string

definition is_string_command :: "command \<Rightarrow> bool" where
  "is_string_command c = (case c of CmdStr _ \<Rightarrow> True | CmdList _ \<Rightarrow> False)"

definition cmd_display_str :: "command \<Rightarrow> string" where
  "cmd_display_str c = (case c of CmdStr s \<Rightarrow> s | CmdList xs \<Rightarrow> join_sp xs)"

definition run_command ::
  "env \<Rightarrow> command \<Rightarrow> path option \<Rightarrow> string \<Rightarrow> bool \<Rightarrow> completed_process prog" where
  "run_command ev command_args_or_string working_dir command_name shell =
     (if shell \<and> \<not> is_string_command command_args_or_string then
        bindP (print Stderr (ShellNeedsString command_args_or_string)) (\<lambda>_. sys_exit 1)
      else if \<not> shell \<and> is_string_command command_args_or_string then
        bindP (print Stderr (NonShellNeedsList command_args_or_string)) (\<lambda>_. sys_exit 1)
      else
        bindP (print Stdout (Executing command_name
                 (take 100 (cmd_display_str command_args_or_string) @
                  (if length (cmd_display_str command_args_or_string) > 100 then ''...''
                   else [])))) (\<lambda>_.
        bindP (case working_dir of None \<Rightarrow> ret () | Some d \<Rightarrow> print Stdout (InDir d)) (\<lambda>_.
        bindP (subprocess_run ev command_args_or_string working_dir shell) (\<lambda>r.
          case r of
            Completed rc so se \<Rightarrow>
              bindP (if so \<noteq> [] then print Stdout (StdoutFrom command_name (strip so))
                     else ret ()) (\<lambda>_.
              bindP (if se \<noteq> [] then print Stderr (StderrFrom command_name (strip se))
                     else ret ()) (\<lambda>_.
              if rc \<noteq> 0 then
                bindP (print Stderr (ErrorExecuting command_name command_args_or_string)) (\<lambda>_.
                bindP (print Stderr (ReturnCode rc)) (\<lambda>_.
                sys_exit 1))
              else
                ret \<lparr>args = command_args_or_string, returncode = rc, stdout = so,
                     stderr = se\<rparr>))
          | RaisedFileNotFound \<Rightarrow>
              (case (if shell then Some command_args_or_string
                     else py_first command_args_or_string) of
                 None \<Rightarrow> uncaught ''IndexError''
               | Some executable \<Rightarrow>
                   bindP (print Stderr (CommandNotFound executable)) (\<lambda>_. sys_exit 1))
          | RaisedOther e \<Rightarrow>
              bindP (print Stderr (UnexpectedError command_name e)) (\<lambda>_. sys_exit 1)))))"

subsection \<open>\<open>ensure_dir\<close> and \<open>check_file_generated\<close>\<close>

definition ensure_dir :: "env \<Rightarrow> path \<Rightarrow> unit prog" where
  "ensure_dir ev dir_path =
     (\<lambda>w. case mkdir_parents (new_dir_size ev) dir_path (files w) of
             Inr fs' \<Rightarrow> (Ret (), w\<lparr>files := fs'\<rparr>)
           | Inl e \<Rightarrow>
               bindP (print Stderr (ErrorCreatingDir dir_path e)) (\<lambda>_. sys_exit 1) w)"

text \<open>
  The test \<open>not file_path.exists() or file_path.stat().st_size == 0\<close>: \<open>stat\<close> is only
  reached for a path that exists.
\<close>

definition file_missing_or_empty :: "filesystem \<Rightarrow> path \<Rightarrow> bool" where
  "file_missing_or_empty fs p = (case fs p of None \<Rightarrow> True | Some n \<Rightarrow> st_size n = 0)"

definition check_file_generated :: "path \<Rightarrow> string \<Rightarrow> bool prog" where
  "check_file_generated file_path file_description =
     (\<lambda>w. if file_missing_or_empty (files w) file_path then
             bindP (print Stderr (NotGenerated file_description file_path))
               (\<lambda>_. ret False) w
           else
             bindP (print Stdout (Generated file_description file_path))
               (\<lambda>_. ret True) w)"

text \<open>A loop \<open>for dir_path in [...]: ensure_dir(dir_path)\<close>.\<close>

fun ensure_dirs :: "env \<Rightarrow> path list \<Rightarrow> unit prog" where
  "ensure_dirs ev [] = ret ()"
| "ensure_dirs ev (d # ds) = bindP (ensure_dir ev d) (\<lambda>_. ensure_dirs ev ds)"

text \<open>\<open>p.unlink(missing_ok=True)\<close> outside any \<open>try\<close>: an \<open>OSError\<close> is not caught.\<close>

definition unlink :: "path \<Rightarrow> unit prog" where
  "unlink p =
     (\<lambda>w. case unlink_missing_ok p (files w) of
             Inr fs' \<Rightarrow> (Ret (), w\<lparr>files := fs'\<rparr>)
           | Inl e \<Rightarrow> uncaught ''OSError'' w)"

text \<open>A test on the filesystem that changes nothing (\<open>exists()\<close>, \<open>is_dir()\<close>, \<open>is_file()\<close>).\<close>

definition read_fs :: "(filesystem \<Rightarrow> 'a) \<Rightarrow> 'a prog" where
  "read_fs f = (\<lambda>w. (Ret (f (files w)), w))"

subsection \<open>The commands\<close>

text \<open>
  The argument lists and the shell string, as the workflows build them. In the printed
  lines the failure and success marks (non-ASCII symbols) are left out; a leading
  \<open>\n\<close> is the character 0x0A.
\<close>

definition dotnet_test_command :: "path \<Rightarrow> command" where
  "dotnet_test_command root = CmdList
     [''dotnet'', ''test'', path_str (CSHARP_TEST_PROJECT_PATH root),
      ''--configuration'', ''Release'', ''--verbosity'', ''minimal'',
      ''/p:CollectCoverage=true'', ''/p:CoverletOutputFormat=cobertura'',
      ''/p:CoverletOutput='' @ path_str (CSHARP_COBERTURA_XML_PATH root)]"

definition go_report_command_csharp :: "path \<Rightarrow> command" where
  "go_report_command_csharp root = CmdList
     [''go'', ''run'', ''.'',
      ''-report='' @ path_str (CSHARP_COBERTURA_XML_PATH root),
      ''-output='' @ path_str (CSHARP_REPORTS_FROM_GO_TOOL_DIR root),
      ''-reporttypes=TextSummary'']"

definition dotnet_rg_command_csharp :: "path \<Rightarrow> command" where
  "dotnet_rg_command_csharp root = CmdList
     [''dotnet'', path_str (DOTNET_REPORT_GENERATOR_DLL_PATH root),
      ''-reports:'' @ path_str (CSHARP_COBERTURA_XML_PATH root),
      ''-targetdir:'' @ path_str (CSHARP_REPORTS_FROM_DOTNET_TOOL_DIR root),
      ''-reporttypes:'' @ ''TextSummary'']"

definition go_test_command :: "path \<Rightarrow> command" where
  "go_test_command root = CmdList
     [''go'', ''test'',
      ''-coverprofile='' @ path_name (GO_PROJECT_NATIVE_COVERAGE_FILE root), ''./...'']"

definition gocover_cobertura_command_str :: "path \<Rightarrow> command" where
  "gocover_cobertura_command_str root = CmdStr
     (''gocover-cobertura.exe < '' @ [CHR 0x22] @
      path_name (GO_PROJECT_NATIVE_COVERAGE_FILE root) @ [CHR 0x22] @
      '' > '' @ [CHR 0x22] @ path_name (GO_PROJECT_COBERTURA_XML_FILE root) @ [CHR 0x22])"

definition go_report_command_go_proj :: "path \<Rightarrow> command" where
  "go_report_command_go_proj root = CmdList
     [''go'', ''run'', ''.'',
      ''-report='' @ path_str (GO_PROJECT_COBERTURA_XML_FILE root),
      ''-output='' @ path_str (GO_PROJECT_REPORTS_FROM_GO_TOOL_DIR root),
      ''-reporttypes=TextSummary'']"

definition dotnet_rg_command_go_proj :: "path \<Rightarrow> command" where
  "dotnet_rg_command_go_proj root = CmdList
     [''dotnet'', path_str (DOTNET_REPORT_GENERATOR_DLL_PATH root),
      ''-reports:'' @ path_str (GO_PROJECT_COBERTURA_XML_FILE root),
      ''-targetdir:'' @ path_str (GO_PROJECT_REPORTS_FROM_DOTNET_TOOL_DIR root),
      ''-reporttypes:'' @ ''TextSummary'']"

subsection \<open>\<open>run_csharp_workflow\<close>\<close>

definition run_csharp_workflow :: "env \<Rightarrow> path \<Rightarrow> unit prog" where
  "run_csharp_workflow ev root =
     bindP (print Stdout (Text (CHR 0x0A # ''--- Starting C# Project Workflow ---''))) (\<lambda>_.
     bindP (ensure_dirs ev [CSHARP_COVERAGE_OUTPUT_DIR root,
                            CSHARP_REPORTS_FROM_GO_TOOL_DIR root,
                            CSHARP_REPORTS_FROM_DOTNET_TOOL_DIR root]) (\<lambda>_.
     bindP (print Stdout (Text ''C# workflow output directories ensured.'')) (\<lambda>_.
     bindP (print Stdout
              (Text (CHR 0x0A # ''--- Generating Cobertura XML for C# project ---''))) (\<lambda>_.
     bindP (run_command ev (dotnet_test_command root) None ''dotnet test (C#)'' False) (\<lambda>_.
     bindP (check_file_generated (CSHARP_COBERTURA_XML_PATH root) ''C# Cobertura XML'') (\<lambda>ok.
     bindP (if \<not> ok then sys_exit 1 else ret ()) (\<lambda>_.
     bindP (print Stdout
              (Text (CHR 0x0A # ''--- Generating report with Go tool for C# Cobertura ---'')))
       (\<lambda>_.
     bindP (run_command ev (go_report_command_csharp root)
              (Some (GO_REPORT_GENERATOR_CMD_PATH root)) ''Go Report Generator (for C#)'' False)
       (\<lambda>_.
     bindP (check_file_generated (CSHARP_REPORTS_FROM_GO_TOOL_DIR root @ [''Summary.txt''])
              ''C# Go-tool TextSummary'') (\<lambda>csharp_go_summary_ok.
     bindP (print Stdout
              (Text (CHR 0x0A # ''--- Generating report with .NET tool for C# Cobertura ---'')))
       (\<lambda>_.
     bindP (run_command ev (dotnet_rg_command_csharp root) None
              ''.NET ReportGenerator (for C#)'' False) (\<lambda>_.
     bindP (check_file_generated (CSHARP_REPORTS_FROM_DOTNET_TOOL_DIR root @ [''Summary.txt''])
              ''C# .NET-tool TextSummary'') (\<lambda>csharp_dotnet_summary_ok.
     if \<not> (csharp_go_summary_ok \<and> csharp_dotnet_summary_ok) then
       bindP (print Stderr
                (Text ''C# workflow: One or more TextSummary reports failed to generate.''))
         (\<lambda>_. sys_exit 1)
     else
       print Stdout (Text ''--- C# Project Workflow Finished Successfully ---''))))))))))))))"

subsection \<open>\<open>run_go_project_workflow\<close>\<close>

definition run_go_project_workflow :: "env \<Rightarrow> path \<Rightarrow> unit prog" where
  "run_go_project_workflow ev root =
     bindP (print Stdout (Text (CHR 0x0A # ''--- Starting Go Project Workflow ---''))) (\<lambda>_.
     bindP (ensure_dirs ev [GO_PROJECT_REPORTS_FROM_GO_TOOL_DIR root,
                            GO_PROJECT_REPORTS_FROM_DOTNET_TOOL_DIR root]) (\<lambda>_.
     bindP (read_fs (\<lambda>fs. path_exists fs (GO_PROJECT_TO_TEST_PATH root))) (\<lambda>found.
     bindP (if \<not> found then
              bindP (print Stderr (GoProjectNotFound (GO_PROJECT_TO_TEST_PATH root)))
                (\<lambda>_. sys_exit 1)
            else ret ()) (\<lambda>_.
     bindP (print Stdout (Text ''Go workflow output directories ensured.'')) (\<lambda>_.
     bindP (unlink (GO_PROJECT_NATIVE_COVERAGE_FILE root)) (\<lambda>_.
     bindP (unlink (GO_PROJECT_COBERTURA_XML_FILE root)) (\<lambda>_.
     bindP (print Stdout (Text ''Old Go coverage files removed.'')) (\<lambda>_.
     bindP (print Stdout (Text (CHR 0x0A # ''--- Generating native Go coverage ---''))) (\<lambda>_.
     bindP (run_command ev (go_test_command root) (Some (GO_PROJECT_TO_TEST_PATH root))
              ''go test (Go project)'' False) (\<lambda>_.
     bindP (check_file_generated (GO_PROJECT_NATIVE_COVERAGE_FILE root) ''Go native coverage'')
       (\<lambda>ok.
     bindP (if \<not> ok then sys_exit 1 else ret ()) (\<lambda>_.
     bindP (print Stdout
              (Text (CHR 0x0A # ''--- Converting Go native coverage to Cobertura XML ---'')))
       (\<lambda>_.
     bindP (run_command ev (gocover_cobertura_command_str root)
              (Some (GO_PROJECT_TO_TEST_PATH root)) ''gocover-cobertura'' True) (\<lambda>_.
     bindP (check_file_generated (GO_PROJECT_COBERTURA_XML_FILE root)
              ''Go project Cobertura XML'') (\<lambda>ok.
     bindP (if \<not> ok then sys_exit 1 else ret ()) (\<lambda>_.
     bindP (print Stdout
              (Text (CHR 0x0A # ''--- Generating report with Go tool for Go Cobertura ---'')))
       (\<lambda>_.
     bindP (run_command ev (go_report_command_go_proj root)
              (Some (GO_REPORT_GENERATOR_CMD_PATH root))
              ''Go Report Generator (for Go project)'' False) (\<lambda>_.
     bindP (check_file_generated (GO_PROJECT_REPORTS_FROM_GO_TOOL_DIR root @ [''Summary.txt''])
              ''Go-project Go-tool TextSummary'') (\<lambda>go_proj_go_summary_ok.
     bindP (print Stdout
              (Text (CHR 0x0A # ''--- Generating report with .NET tool for Go Cobertura ---'')))
       (\<lambda>_.
     bindP (run_command ev (dotnet_rg_command_go_proj root) None
              ''.NET ReportGenerator (for Go project)'' False) (\<lambda>_.
     bindP (check_file_generated
              (GO_PROJECT_REPORTS_FROM_DOTNET_TOOL_DIR root @ [''Summary.txt''])
              ''Go-project .NET-tool TextSummary'') (\<lambda>go_proj_dotnet_summary_ok.
     if \<not> (go_proj_go_summary_ok \<and> go_proj_dotnet_summary_ok) then
       bindP (print Stderr
                (Text ''Go project workflow: One or more TextSummary reports failed to generate.''))
         (\<lambda>_. sys_exit 1)
     else
       print Stdout
         (Text ''--- Go Project Workflow Finished Successfully ---'')))))))))))))))))))))))"

subsection \<open>\<open>main\<close>\<close>

definition main :: "env \<Rightarrow> path \<Rightarrow> unit prog" where
  "main ev root =
     bindP (print Stdout
              (Text ''Python script for C# and Go project coverage and reporting.'')) (\<lambda>_.
     bindP (read_fs (\<lambda>fs. \<not> path_is_dir fs (GO_REPORT_GENERATOR_CMD_PATH root) \<or>
                           \<not> path_is_file fs (GO_REPORT_GENERATOR_CMD_PATH root @ [''main.go''])))
       (\<lambda>missing.
     bindP (if missing then
              bindP (print Stderr (GoMainNotFound (GO_REPORT_GENERATOR_CMD_PATH root)))
                (\<lambda>_. sys_exit 1)
            else ret ()) (\<lambda>_.
     bindP (read_fs (\<lambda>fs. path_exists fs (DOTNET_REPORT_GENERATOR_DLL_PATH root))) (\<lambda>found.
     bindP (if \<not> found then
              bindP (print Stderr (DllNotFound (DOTNET_REPORT_GENERATOR_DLL_PATH root)))
                (\<lambda>_. sys_exit 1)
            else ret ()) (\<lambda>_.
     bindP (print Stdout (Text ''Common report generation tools found.'')) (\<lambda>_.
     bindP (run_csharp_workflow ev root) (\<lambda>_.
     bindP (run_go_project_workflow ev root) (\<lambda>_.
     print Stdout (Text (CHR 0x0A # ''All workflows completed successfully.''))))))))))"

section \<open>Derived descriptions used in the statements\<close>

text \<open>
  Nothing below is part of the script: these are names for what the statements talk
  about (whether a subprocess succeeded, what one call of \<open>run_command\<close> prints, the
  stages of a workflow) and the concrete environments the examples run in.
\<close>

definition succeeded :: "proc_outcome \<Rightarrow> bool" where
  "succeeded oc = (case oc of Completed rc _ _ \<Rightarrow> rc = 0 | _ \<Rightarrow> False)"

definition preview_lines :: "command \<Rightarrow> path option \<Rightarrow> string \<Rightarrow> (stream \<times> msg) list" where
  "preview_lines cmd cwd name =
     (Stdout, Executing name (take 100 (cmd_display_str cmd) @
        (if length (cmd_display_str cmd) > 100 then ''...'' else []))) #
     (case cwd of None \<Rightarrow> [] | Some d \<Rightarrow> [(Stdout, InDir d)])"

definition stream_lines :: "string \<Rightarrow> string \<Rightarrow> string \<Rightarrow> (stream \<times> msg) list" where
  "stream_lines name so se =
     (if so \<noteq> [] then [(Stdout, StdoutFrom name (strip so))] else []) @
     (if se \<noteq> [] then [(Stderr, StderrFrom name (strip se))] else [])"

definition outcome_lines ::
  "command \<Rightarrow> string \<Rightarrow> bool \<Rightarrow> proc_outcome \<Rightarrow> (stream \<times> msg) list" where
  "outcome_lines cmd name shell oc =
     (case oc of
        Completed rc so se \<Rightarrow>
          stream_lines name so se @
          (if rc \<noteq> 0 then [(Stderr, ErrorExecuting name cmd), (Stderr, ReturnCode rc)] else [])
      | RaisedFileNotFound \<Rightarrow>
          (case (if shell then Some cmd else py_first cmd) of
             None \<Rightarrow> [(Stderr, Traceback ''IndexError'')]
           | Some x \<Rightarrow> [(Stderr, CommandNotFound x)])
      | RaisedOther e \<Rightarrow> [(Stderr, UnexpectedError name e)])"

definition the_process :: "command \<Rightarrow> proc_outcome \<Rightarrow> completed_process" where
  "the_process cmd oc =
     (case oc of
        Completed rc so se \<Rightarrow> \<lparr>args = cmd, returncode = rc, stdout = so, stderr = se\<rparr>
      | _ \<Rightarrow> \<lparr>args = cmd, returncode = 0, stdout = [], stderr = []\<rparr>)"

definition the_call ::
  "world \<Rightarrow> command \<Rightarrow> path option \<Rightarrow> bool \<Rightarrow> proc_outcome \<Rightarrow> filesystem \<Rightarrow> call" where
  "the_call w cmd cwd shell oc fs' =
     \<lparr>c_cmd = cmd, c_cwd = cwd, c_shell = shell, c_fs_before = files w,
      c_outcome = oc, c_fs_after = fs'\<rparr>"

definition after_call ::
  "world \<Rightarrow> command \<Rightarrow> path option \<Rightarrow> string \<Rightarrow> bool \<Rightarrow> proc_outcome \<Rightarrow> filesystem
   \<Rightarrow> world" where
  "after_call w cmd cwd name shell oc fs' =
     \<lparr>files = fs',
      out = out w @ preview_lines cmd cwd name @ outcome_lines cmd name shell oc,
      calls = calls w @ [the_call w cmd cwd shell oc fs']\<rparr>"

definition check_line :: "filesystem \<Rightarrow> path \<Rightarrow> string \<Rightarrow> stream \<times> msg" where
  "check_line fs p d =
     (if file_missing_or_empty fs p then (Stderr, NotGenerated d p)
      else (Stdout, Generated d p))"

text \<open>The loop over \<open>ensure_dir\<close> as a function of the filesystem alone.\<close>

fun mkdirs ::
  "nat \<Rightarrow> path list \<Rightarrow> filesystem \<Rightarrow> (path \<times> oserror \<times> filesystem) + filesystem" where
  "mkdirs dsz [] fs = Inr fs"
| "mkdirs dsz (d # ds) fs =
     (case mkdir_parents dsz d fs of
        Inl e \<Rightarrow> Inl (d, e, fs)
      | Inr fs1 \<Rightarrow> mkdirs dsz ds fs1)"

text \<open>A call passed its guard: the subprocess succeeded and left the artifact behind.\<close>

definition passed :: "call \<Rightarrow> path \<Rightarrow> bool" where
  "passed c p = (succeeded (c_outcome c) \<and> \<not> file_missing_or_empty (c_fs_after c) p)"

text \<open>The two workflows side by side: commands in order, each with the artifact checked
  after it, and the output directories each workflow ensures.\<close>

datatype project = CSharpProject | GoProject

fun workflow :: "project \<Rightarrow> env \<Rightarrow> path \<Rightarrow> unit prog" where
  "workflow CSharpProject = run_csharp_workflow"
| "workflow GoProject = run_go_project_workflow"

fun stages :: "project \<Rightarrow> path \<Rightarrow> (command \<times> path) list" where
  "stages CSharpProject root =
     [(dotnet_test_command root, CSHARP_COBERTURA_XML_PATH root),
      (go_report_command_csharp root, CSHARP_REPORTS_FROM_GO_TOOL_DIR root @ [''Summary.txt'']),
      (dotnet_rg_command_csharp root,
       CSHARP_REPORTS_FROM_DOTNET_TOOL_DIR root @ [''Summary.txt''])]"
| "stages GoProject root =
     [(go_test_command root, GO_PROJECT_NATIVE_COVERAGE_FILE root),
      (gocover_cobertura_command_str root, GO_PROJECT_COBERTURA_XML_FILE root),
      (go_report_command_go_proj root,
       GO_PROJECT_REPORTS_FROM_GO_TOOL_DIR root @ [''Summary.txt'']),
      (dotnet_rg_command_go_proj root,
       GO_PROJECT_REPORTS_FROM_DOTNET_TOOL_DIR root @ [''Summary.txt''])]"

fun output_dirs :: "project \<Rightarrow> path \<Rightarrow> path list" where
  "output_dirs CSharpProject root =
     [CSHARP_COVERAGE_OUTPUT_DIR root, CSHARP_REPORTS_FROM_GO_TOOL_DIR root,
      CSHARP_REPORTS_FROM_DOTNET_TOOL_DIR root]"
| "output_dirs GoProject root =
     [GO_PROJECT_REPORTS_FROM_GO_TOOL_DIR root, GO_PROJECT_REPORTS_FROM_DOTNET_TOOL_DIR root]"

text \<open>Report generator A (the Go tool) is the last stage but one, B (the .NET tool) the last.\<close>

definition report_a_index :: "project \<Rightarrow> nat" where
  "report_a_index P = (case P of CSharpProject \<Rightarrow> 1 | GoProject \<Rightarrow> 2)"

text \<open>
  What a run of one workflow can look like, in terms of the subprocesses it started: they
  are the stage commands in order; every subprocess but the last succeeded; before report
  generator A every stage that was followed by another passed its guard; the workflow
  returns only if every stage passed; and it stops short of the last stage only before
  generator A has run or when generator A's command itself failed.
\<close>

definition workflow_shape :: "project \<Rightarrow> path \<Rightarrow> unit outcome \<Rightarrow> call list \<Rightarrow> bool" where
  "workflow_shape P root r new =
     (length new \<le> length (stages P root) \<and>
      map c_cmd new = take (length new) (map fst (stages P root)) \<and>
      list_all (\<lambda>c. succeeded (c_outcome c)) (butlast new) \<and>
      list_all (\<lambda>(c, p). passed c p)
        (zip (butlast new) (take (report_a_index P) (map snd (stages P root)))) \<and>
      (r = Exit 1 \<or>
       (r = Ret () \<and> length new = length (stages P root) \<and>
        list_all2 passed new (map snd (stages P root)))) \<and>
      (length new = length (stages P root) \<or>
       length new \<le> report_a_index P \<or>
       (length new = Suc (report_a_index P) \<and> \<not> succeeded (c_outcome (last new)))))"

text \<open>What the preflight test of \<open>main\<close> asks of the filesystem.\<close>

definition tools_present :: "filesystem \<Rightarrow> path \<Rightarrow> bool" where
  "tools_present fs root =
     (path_is_dir fs (GO_REPORT_GENERATOR_CMD_PATH root) \<and>
      path_is_file fs (GO_REPORT_GENERATOR_CMD_PATH root @ [''main.go'']) \<and>
      path_exists fs (DOTNET_REPORT_GENERATOR_DLL_PATH root))"

subsection \<open>Concrete environments\<close>

text \<open>
  A scripted stand-in for the external programs: the \<open>k\<close>-th subprocess of the run ends
  with the \<open>k\<close>-th outcome of the script, after writing a one-byte file at the given path
  (if any); a subprocess beyond the script is an executable that is not found.
\<close>

definition env_script :: "(proc_outcome \<times> path option) list \<Rightarrow> env" where
  "env_script script =
     \<lparr>run_proc = (\<lambda>cs fs cmd cwd shell.
        case drop (length cs) script of
          [] \<Rightarrow> (RaisedFileNotFound, fs)
        | (oc, None) # _ \<Rightarrow> (oc, fs)
        | (oc, Some p) # _ \<Rightarrow> (oc, fs(p \<mapsto> File 1))),
      new_dir_size = 4096\<rparr>"

definition root0 :: path where
  "root0 = [''repo'', ''Testprojects'']"

text \<open>A filesystem with the repository, both report tools and the Go project in place.\<close>

definition fs_tools :: filesystem where
  "fs_tools =
     [[] \<mapsto> Dir 4096,
      [''repo''] \<mapsto> Dir 4096,
      [''repo'', ''Testprojects''] \<mapsto> Dir 4096,
      [''repo'', ''Testprojects'', ''Go''] \<mapsto> Dir 4096,
      [''repo'', ''go_report_generator''] \<mapsto> Dir 4096,
      [''repo'', ''go_report_generator'', ''cmd''] \<mapsto> Dir 4096,
      [''repo'', ''go_report_generator'', ''cmd'', ''main.go''] \<mapsto> File 100,
      [''repo'', ''src''] \<mapsto> Dir 4096,
      [''repo'', ''src'', ''ReportGenerator.Console.NetCore''] \<mapsto> Dir 4096,
      [''repo'', ''src'', ''ReportGenerator.Console.NetCore'', ''bin''] \<mapsto> Dir 4096,
      [''repo'', ''src'', ''ReportGenerator.Console.NetCore'', ''bin'', ''Debug''] \<mapsto> Dir 4096,
      [''repo'', ''src'', ''ReportGenerator.Console.NetCore'', ''bin'', ''Debug'', ''net8.0'']
        \<mapsto> Dir 4096,
      [''repo'', ''src'', ''ReportGenerator.Console.NetCore'', ''bin'', ''Debug'', ''net8.0'',
       ''ReportGenerator.dll''] \<mapsto> File 100]"

definition w_tools :: world where
  "w_tools = \<lparr>files = fs_tools, out = [], calls = []\<rparr>"

text \<open>A filesystem with just the repository and the Go project, for a workflow alone.\<close>

definition fs_repo :: filesystem where
  "fs_repo =
     [[] \<mapsto> Dir 4096,
      [''repo''] \<mapsto> Dir 4096,
      [''repo'', ''Testprojects''] \<mapsto> Dir 4096,
      [''repo'', ''Testprojects'', ''Go''] \<mapsto> Dir 4096]"

definition w_repo :: world where
  "w_repo = \<lparr>files = fs_repo, out = [], calls = []\<rparr>"

text \<open>The same without the Go project directory.\<close>

definition w_no_go :: world where
  "w_no_go =
     \<lparr>files = [[] \<mapsto> Dir 4096, [''repo''] \<mapsto> Dir 4096,
               [''repo'', ''Testprojects''] \<mapsto> Dir 4096],
      out = [], calls = []\<rparr>"

text \<open>The first subprocess ends with return code 1, after writing to both streams.\<close>

definition env_fail :: env where
  "env_fail = env_script [(Completed 1 (''some output'' @ [CHR 0x0A]) ''some error'', None)]"


text \<open>Three subprocesses that succeed and write nothing.\<close>

definition env_idle :: env where
  "env_idle = env_script
     [(Completed 0 [] [], None), (Completed 0 [] [], None), (Completed 0 [] [], None)]"

text \<open>
  A filesystem after an earlier run: the C# Cobertura file and both C# summaries are
  still there.
\<close>

definition w_stale :: world where
  "w_stale =
     \<lparr>files = fs_repo
        ([''repo'', ''Testprojects'', ''CSharp''] \<mapsto> Dir 4096,
         [''repo'', ''Testprojects'', ''CSharp'', ''Reports''] \<mapsto> Dir 4096,
         [''repo'', ''Testprojects'', ''CSharp'', ''Reports'', ''coverage.cobertura.xml'']
           \<mapsto> File 7,
         [''repo'', ''reports''] \<mapsto> Dir 4096,
         [''repo'', ''reports'', ''csharp_project_go_tool_report''] \<mapsto> Dir 4096,
         [''repo'', ''reports'', ''csharp_project_go_tool_report'', ''Summary.txt'']
           \<mapsto> File 7,
         [''repo'', ''reports'', ''csharp_project_dotnet_tool_report''] \<mapsto> Dir 4096,
         [''repo'', ''reports'', ''csharp_project_dotnet_tool_report'', ''Summary.txt'']
           \<mapsto> File 7),
      out = [], calls = []\<rparr>"

section \<open>Running the model: one rewrite per statement\<close>

lemma print_apply: "print s m w = (Ret (), w\<lparr>out := out w @ [(s, m)]\<rparr>)"
  by (simp add: print_def)

lemma sys_exit_apply: "sys_exit n w = (Exit n, w)"
  by (simp add: sys_exit_def)

lemma ret_apply: "ret x w = (Ret x, w)"
  by (simp add: ret_def)

lemma bindP_print: "bindP (print s m) k w = k () (w\<lparr>out := out w @ [(s, m)]\<rparr>)"
  by (simp add: bindP_def print_def)

lemma bindP_ret: "bindP (ret x) k w = k x w"
  by (simp add: bindP_def ret_def)

lemma bindP_exit: "bindP (sys_exit n) k w = (Exit n, w)"
  by (simp add: bindP_def sys_exit_def)

lemma bindP_read_fs: "bindP (read_fs f) k w = k (f (files w)) w"
  by (simp add: bindP_def read_fs_def)

lemma bindP_cases:
  assumes "bindP m k w = (r, w')"
  obtains (exit) n where "m w = (Exit n, w')" and "r = Exit n"
    | (ret) x w1 where "m w = (Ret x, w1)" and "k x w1 = (r, w')"
  using assms by (auto simp: bindP_def split: prod.splits outcome.splits)

subsection \<open>Directories\<close>


lemma os_mkdir_is_dir:
  "os_mkdir dsz p fs = Inr fs' \<Longrightarrow> path_is_dir fs' p"
  by (auto simp: os_mkdir_def path_is_dir_def split: option.splits node.splits)

lemma mkdir_exist_ok_is_dir:
  "mkdir_exist_ok dsz p fs = Inr fs' \<Longrightarrow> path_is_dir fs' p"
  by (auto simp: mkdir_exist_ok_def os_mkdir_def path_is_dir_def
      split: option.splits node.splits if_splits)

lemma mkdir_parents_is_dir:
  "mkdir_parents dsz p fs = Inr fs' \<Longrightarrow> path_is_dir fs' p"
  by (subst (asm) mkdir_parents.simps)
     (auto simp: os_mkdir_is_dir mkdir_exist_ok_is_dir split: if_splits sum.splits)

text \<open>Directory creation only adds: what existed stays as it was.\<close>

lemma os_mkdir_extends:
  "os_mkdir dsz p fs = Inr fs' \<Longrightarrow> fs q \<noteq> None \<Longrightarrow> fs' q = fs q"
  by (auto simp: os_mkdir_def split: option.splits node.splits)

lemma mkdir_exist_ok_extends:
  "mkdir_exist_ok dsz p fs = Inr fs' \<Longrightarrow> fs q \<noteq> None \<Longrightarrow> fs' q = fs q"
  by (auto simp: mkdir_exist_ok_def dest: os_mkdir_extends split: sum.splits if_splits)

lemma mkdir_parents_extends:
  "mkdir_parents dsz p fs = Inr fs' \<Longrightarrow> fs q \<noteq> None \<Longrightarrow> fs' q = fs q"
proof (induction dsz p fs arbitrary: fs' rule: mkdir_parents.induct)
  case (1 dsz p fs)
  show ?case
  proof (cases "os_mkdir dsz p fs")
    case (Inr fs0)
    with "1.prems" show ?thesis
      by (subst (asm) mkdir_parents.simps) (auto dest: os_mkdir_extends)
  next
    case (Inl e)
    show ?thesis
    proof (cases "e = FileNotFoundError \<and> butlast p \<noteq> p")
      case False
      with Inl "1.prems" show ?thesis
        by (subst (asm) mkdir_parents.simps) (auto split: if_splits)
    next
      case True
      with Inl "1.prems"(1) obtain fs1 where
        a: "mkdir_parents dsz (butlast p) fs = Inr fs1" and
        b: "mkdir_exist_ok dsz p fs1 = Inr fs'"
        by (subst (asm) mkdir_parents.simps) (auto split: sum.splits)
      have "fs1 q = fs q"
        using "1.IH"[OF Inl _ _ a "1.prems"(2)] True by simp
      moreover have "fs' q = fs1 q"
        using mkdir_exist_ok_extends[OF b] \<open>fs1 q = fs q\<close> "1.prems"(2) by simp
      ultimately show ?thesis by simp
    qed
  qed
qed

lemma ensure_dir_cases:
  "ensure_dir ev p w =
     (case mkdir_parents (new_dir_size ev) p (files w) of
        Inr fs' \<Rightarrow> (Ret (), w\<lparr>files := fs'\<rparr>)
      | Inl e \<Rightarrow> (Exit 1, w\<lparr>out := out w @ [(Stderr, ErrorCreatingDir p e)]\<rparr>))"
  by (simp add: ensure_dir_def bindP_print sys_exit_apply split: sum.splits)

lemma ensure_dirs_apply:
  "ensure_dirs ev ds w =
     (case mkdirs (new_dir_size ev) ds (files w) of
        Inr fs' \<Rightarrow> (Ret (), w\<lparr>files := fs'\<rparr>)
      | Inl (d, e, fs1) \<Rightarrow>
          (Exit 1, w\<lparr>files := fs1, out := out w @ [(Stderr, ErrorCreatingDir d e)]\<rparr>))"
proof (induction ds arbitrary: w)
  case Nil
  show ?case by (simp add: ret_def)
next
  case (Cons d ds)
  show ?case
    by (cases "mkdir_parents (new_dir_size ev) d (files w)")
       (simp_all add: bindP_def ensure_dir_cases Cons.IH split: sum.splits)
qed

lemma bindP_ensure_dirs:
  "bindP (ensure_dirs ev ds) k w =
     (case mkdirs (new_dir_size ev) ds (files w) of
        Inr fs' \<Rightarrow> k () (w\<lparr>files := fs'\<rparr>)
      | Inl (d, e, fs1) \<Rightarrow>
          (Exit 1, w\<lparr>files := fs1, out := out w @ [(Stderr, ErrorCreatingDir d e)]\<rparr>))"
  by (simp add: bindP_def ensure_dirs_apply split: sum.splits)

lemma bindP_unlink:
  "bindP (unlink p) k w =
     (case unlink_missing_ok p (files w) of
        Inr fs' \<Rightarrow> k () (w\<lparr>files := fs'\<rparr>)
      | Inl e \<Rightarrow> (Exit 1, w\<lparr>out := out w @ [(Stderr, Traceback ''OSError'')]\<rparr>))"
  by (simp add: bindP_def unlink_def uncaught_def print_def sys_exit_def split: sum.splits)




lemma mkdir_parents_keeps_dir:
  "mkdir_parents dsz p fs = Inr fs' \<Longrightarrow> path_is_dir fs q \<Longrightarrow> path_is_dir fs' q"
  using mkdir_parents_extends[of dsz p fs fs' q]
  by (auto simp: path_is_dir_def split: option.splits node.splits)

lemma mkdirs_keeps_dir:
  "mkdirs dsz ds fs = Inr fs' \<Longrightarrow> path_is_dir fs q \<Longrightarrow> path_is_dir fs' q"
  by (induction ds arbitrary: fs) (auto split: sum.splits dest: mkdir_parents_keeps_dir)

lemma mkdirs_all_dirs:
  "mkdirs dsz ds fs = Inr fs' \<Longrightarrow> list_all (path_is_dir fs') ds"
  by (induction ds arbitrary: fs)
     (auto split: sum.splits dest: mkdir_parents_is_dir mkdirs_keeps_dir)


text \<open>Directory creation touches the path and its ancestors only.\<close>

lemma os_mkdir_only:
  "os_mkdir dsz p fs = Inr fs' \<Longrightarrow> q \<noteq> p \<Longrightarrow> fs' q = fs q"
  by (auto simp: os_mkdir_def split: option.splits node.splits)

lemma mkdir_exist_ok_only:
  "mkdir_exist_ok dsz p fs = Inr fs' \<Longrightarrow> q \<noteq> p \<Longrightarrow> fs' q = fs q"
  by (auto simp: mkdir_exist_ok_def dest: os_mkdir_only split: sum.splits if_splits)

lemma take_butlast_take: "\<exists>j. take k (butlast p) = take j p"
  by (metis butlast_conv_take take_take)

lemma mkdir_parents_only:
  "mkdir_parents dsz p fs = Inr fs' \<Longrightarrow> (\<forall>k. q \<noteq> take k p) \<Longrightarrow> fs' q = fs q"
proof (induction dsz p fs arbitrary: fs' rule: mkdir_parents.induct)
  case (1 dsz p fs)
  have qp: "q \<noteq> p" using "1.prems"(2)[rule_format, of "length p"] by simp
  show ?case
  proof (cases "os_mkdir dsz p fs")
    case (Inr fs0)
    with "1.prems"(1) qp show ?thesis
      by (subst (asm) mkdir_parents.simps) (auto dest: os_mkdir_only)
  next
    case (Inl e)
    show ?thesis
    proof (cases "e = FileNotFoundError \<and> butlast p \<noteq> p")
      case False
      with Inl "1.prems" show ?thesis
        by (subst (asm) mkdir_parents.simps) (auto split: if_splits)
    next
      case True
      with Inl "1.prems"(1) obtain fs1 where
        a: "mkdir_parents dsz (butlast p) fs = Inr fs1" and
        b: "mkdir_exist_ok dsz p fs1 = Inr fs'"
        by (subst (asm) mkdir_parents.simps) (auto split: sum.splits)
      have "\<forall>k. q \<noteq> take k (butlast p)"
        using "1.prems"(2) take_butlast_take[of _ p] by metis 
      then have "fs1 q = fs q"
        using "1.IH"[OF Inl _ _ a] True by simp
      moreover have "fs' q = fs1 q"
        using mkdir_exist_ok_only[OF b qp] .
      ultimately show ?thesis by simp
    qed
  qed
qed

lemma mkdirs_only:
  "mkdirs dsz ds fs = Inr fs' \<Longrightarrow> (\<forall>d\<in>set ds. \<forall>k. q \<noteq> take k d) \<Longrightarrow> fs' q = fs q"
proof (induction ds arbitrary: fs)
  case Nil
  then show ?case by simp
next
  case (Cons d ds)
  from Cons.prems(1) obtain fs1 where
    a: "mkdir_parents dsz d fs = Inr fs1" and b: "mkdirs dsz ds fs1 = Inr fs'"
    by (auto split: sum.splits)
  have "fs1 q = fs q" using mkdir_parents_only[OF a] Cons.prems(2) by simp
  moreover have "fs' q = fs1 q" using Cons.IH[OF b] Cons.prems(2) by simp
  ultimately show ?case by simp
qed

lemma mkdirs_failed_extends:
  "mkdirs dsz ds fs = Inl (d, e, fs1) \<Longrightarrow> (\<forall>d\<in>set ds. \<forall>k. q \<noteq> take k d) \<Longrightarrow> fs1 q = fs q"
proof (induction ds arbitrary: fs)
  case Nil
  then show ?case by simp
next
  case (Cons d' ds)
  show ?case
  proof (cases "mkdir_parents dsz d' fs")
    case (Inl e')
    with Cons.prems show ?thesis by simp
  next
    case (Inr fs2)
    with Cons.prems(1) have b: "mkdirs dsz ds fs2 = Inl (d, e, fs1)" by simp
    have "fs2 q = fs q" using mkdir_parents_only[OF Inr] Cons.prems(2) by simp
    moreover have "fs1 q = fs2 q" using Cons.IH[OF b] Cons.prems(2) by simp
    ultimately show ?thesis by simp
  qed
qed

text \<open>A path below the script's directory is no ancestor of a report directory.\<close>

lemma below_root_not_ancestor:
  assumes "s \<noteq> []" and "last s \<noteq> c" and "last s \<noteq> d"
  shows "root @ s \<noteq> take k (butlast root @ [c, d])"
proof
  assume eq: "root @ s = take k (butlast root @ [c, d])"
  show False
  proof (cases "root = []")
    case True
    with eq assms show False by (auto simp: take_Cons' split: if_splits)
  next
    case False
    then obtain A l where r: "root = A @ [l]" by (metis rev_exhaust)
    from eq r have e2: "A @ l # s = take k (A @ [c, d])" by simp
    then have "length (A @ l # s) = length (take k (A @ [c, d]))" by simp
    with assms(1) have "k \<ge> length A + 2" by (cases s) auto
    with e2 have "l # s = [c, d]" by simp
    with assms show False by auto
  qed
qed

subsection \<open>\<open>run_command\<close> and \<open>check_file_generated\<close>\<close>

lemma after_call_sel [simp]:
  "files (after_call w cmd cwd name shell oc fs') = fs'"
  "calls (after_call w cmd cwd name shell oc fs') = calls w @ [the_call w cmd cwd shell oc fs']"
  "out (after_call w cmd cwd name shell oc fs') =
     out w @ preview_lines cmd cwd name @ outcome_lines cmd name shell oc"
  by (simp_all add: after_call_def)

lemma the_call_sel [simp]:
  "c_cmd (the_call w cmd cwd shell oc fs') = cmd"
  "c_cwd (the_call w cmd cwd shell oc fs') = cwd"
  "c_shell (the_call w cmd cwd shell oc fs') = shell"
  "c_fs_before (the_call w cmd cwd shell oc fs') = files w"
  "c_outcome (the_call w cmd cwd shell oc fs') = oc"
  "c_fs_after (the_call w cmd cwd shell oc fs') = fs'"
  by (simp_all add: the_call_def)

lemma run_command_apply:
  assumes "shell = is_string_command cmd"
    and "run_proc ev (calls w) (files w) cmd cwd shell = (oc, fs')"
  shows "run_command ev cmd cwd name shell w =
     (if succeeded oc then Ret (the_process cmd oc) else Exit 1,
      after_call w cmd cwd name shell oc fs')"
  using assms
  by (cases oc; cases cwd)
     (simp_all add: run_command_def bindP_def print_def ret_def sys_exit_def
       subprocess_run_def succeeded_def uncaught_def the_call_def
       preview_lines_def stream_lines_def outcome_lines_def the_process_def after_call_def
       split: option.splits)

lemma run_command_mismatch:
  assumes "shell \<noteq> is_string_command cmd"
  shows "run_command ev cmd cwd name shell w =
     (Exit 1, w\<lparr>out := out w @
        [(Stderr, if shell then ShellNeedsString cmd else NonShellNeedsList cmd)]\<rparr>)"
  using assms by (auto simp: run_command_def bindP_print sys_exit_apply)

lemma bindP_run_command:
  "shell = is_string_command cmd \<Longrightarrow>
   bindP (run_command ev cmd cwd name shell) k w =
     (case run_proc ev (calls w) (files w) cmd cwd shell of (oc, fs') \<Rightarrow>
        if succeeded oc then k (the_process cmd oc) (after_call w cmd cwd name shell oc fs')
        else (Exit 1, after_call w cmd cwd name shell oc fs'))"
  by (cases "run_proc ev (calls w) (files w) cmd cwd shell")
     (simp add: bindP_def run_command_apply)

lemma bindP_check_file_generated:
  "bindP (check_file_generated p d) k w =
     k (\<not> file_missing_or_empty (files w) p) (w\<lparr>out := out w @ [check_line (files w) p d]\<rparr>)"
  by (simp add: check_file_generated_def bindP_def print_def ret_def check_line_def)

lemma mode_simps [simp]:
  "is_string_command (dotnet_test_command root) = False"
  "is_string_command (go_report_command_csharp root) = False"
  "is_string_command (dotnet_rg_command_csharp root) = False"
  "is_string_command (go_test_command root) = False"
  "is_string_command (gocover_cobertura_command_str root) = True"
  "is_string_command (go_report_command_go_proj root) = False"
  "is_string_command (dotnet_rg_command_go_proj root) = False"
  by (simp_all add: is_string_command_def dotnet_test_command_def go_report_command_csharp_def
      dotnet_rg_command_csharp_def go_test_command_def gocover_cobertura_command_str_def
      go_report_command_go_proj_def dotnet_rg_command_go_proj_def)

lemmas exec_simps = bindP_print bindP_ret bindP_exit bindP_run_command
  bindP_check_file_generated bindP_read_fs bindP_unlink sys_exit_apply ret_apply print_apply
  bindP_ensure_dirs

lemmas path_defs = CSHARP_TEST_PROJECT_PATH_def CSHARP_COVERAGE_OUTPUT_DIR_def
  CSHARP_COBERTURA_XML_PATH_def CSHARP_REPORTS_FROM_GO_TOOL_DIR_def
  CSHARP_REPORTS_FROM_DOTNET_TOOL_DIR_def GO_PROJECT_TO_TEST_PATH_def
  GO_PROJECT_NATIVE_COVERAGE_FILE_def GO_PROJECT_COBERTURA_XML_FILE_def
  GO_PROJECT_REPORTS_FROM_GO_TOOL_DIR_def GO_PROJECT_REPORTS_FROM_DOTNET_TOOL_DIR_def
  GO_REPORT_GENERATOR_CMD_PATH_def DOTNET_REPORT_GENERATOR_DLL_PATH_def

lemma env_script_sel [simp]:
  "new_dir_size (env_script s) = 4096"
  "run_proc (env_script s) cs fs cmd cwd shell =
     (case drop (length cs) s of
          [] \<Rightarrow> (RaisedFileNotFound, fs)
        | (oc, None) # _ \<Rightarrow> (oc, fs)
        | (oc, Some p) # _ \<Rightarrow> (oc, fs(p \<mapsto> File 1)))"
  by (simp_all add: env_script_def)

subsection \<open>Stepping through a workflow\<close>

declare ensure_dirs.simps [simp del]

declare mkdirs.simps [simp del]

lemma bindP_assoc: "bindP (bindP m f) k = bindP m (\<lambda>x. bindP (f x) k)"
  by (rule ext) (simp add: bindP_def split: prod.splits outcome.splits)

text \<open>One statement at a time, keeping what it does to the files and the calls.\<close>

lemma step_print:
  assumes "bindP (print s m) k w = (r, w')"
  obtains w1 where "files w1 = files w" and "calls w1 = calls w" and "k () w1 = (r, w')"
  using assms by (simp add: bindP_print) (metis world.select_convs(1,3) world.surjective world.update_convs(2))

lemma last_print:
  assumes "print s m w = (r, w')"
  shows "r = Ret () \<and> files w' = files w \<and> calls w' = calls w"
  using assms by (auto simp: print_def)

lemma step_check:
  assumes "bindP (check_file_generated p d) k w = (r, w')"
  obtains w1 where "files w1 = files w" and "calls w1 = calls w"
    and "k (\<not> file_missing_or_empty (files w) p) w1 = (r, w')"
  using assms that[of "w\<lparr>out := out w @ [check_line (files w) p d]\<rparr>"]
  by (simp add: bindP_check_file_generated)

lemma step_ensure_dirs:
  assumes "bindP (ensure_dirs ev ds) k w = (r, w')"
  obtains (failed) d e fs1 where "mkdirs (new_dir_size ev) ds (files w) = Inl (d, e, fs1)"
      and "r = Exit 1" and "calls w' = calls w" and "files w' = fs1"
    | (ensured) fs1 w1 where "mkdirs (new_dir_size ev) ds (files w) = Inr fs1"
      and "files w1 = fs1" and "calls w1 = calls w" and "k () w1 = (r, w')"
proof (cases "mkdirs (new_dir_size ev) ds (files w)")
  case (Inl x)
  obtain d e fs1 where "x = (d, e, fs1)" by (cases x) auto
  with Inl assms show ?thesis by (intro failed[of d e fs1]) (auto simp: bindP_ensure_dirs)
next
  case (Inr fs1)
  with assms show ?thesis
    by (intro ensured[of fs1 "w\<lparr>files := fs1\<rparr>"]) (auto simp: bindP_ensure_dirs)
qed

lemma step_unlink:
  assumes "bindP (unlink p) k w = (r, w')"
  obtains (raised) e where "unlink_missing_ok p (files w) = Inl e"
      and "r = Exit 1" and "calls w' = calls w" and "files w' = files w"
    | (unlinked) fs1 w1 where "unlink_missing_ok p (files w) = Inr fs1"
      and "files w1 = fs1" and "calls w1 = calls w" and "k () w1 = (r, w')"
proof (cases "unlink_missing_ok p (files w)")
  case (Inl e)
  with assms show ?thesis by (intro raised[of e]) (auto simp: bindP_unlink)
next
  case (Inr fs1)
  with assms show ?thesis
    by (intro unlinked[of fs1 "w\<lparr>files := fs1\<rparr>"]) (auto simp: bindP_unlink)
qed

lemma step_run_command:
  assumes "bindP (run_command ev cmd cwd name shell) k w = (r, w')"
    and "shell = is_string_command cmd"
  obtains (stopped) c where "\<not> succeeded (c_outcome c)" and "r = Exit 1"
      and "calls w' = calls w @ [c]" and "files w' = c_fs_after c"
      and "c_cmd c = cmd" and "c_fs_before c = files w"
    | (went_on) c w1 where "succeeded (c_outcome c)"
      and "calls w1 = calls w @ [c]" and "files w1 = c_fs_after c"
      and "c_cmd c = cmd" and "c_fs_before c = files w"
      and "k (the_process cmd (c_outcome c)) w1 = (r, w')"
proof -
  obtain oc fs' where rp: "run_proc ev (calls w) (files w) cmd cwd shell = (oc, fs')"
    by (cases "run_proc ev (calls w) (files w) cmd cwd shell") auto
  show ?thesis
  proof (cases "succeeded oc")
    case True
    with assms rp show ?thesis
      by (intro went_on[of "the_call w cmd cwd shell oc fs'"
            "after_call w cmd cwd name shell oc fs'"])
         (auto simp: bindP_run_command)
  next
    case False
    with assms rp show ?thesis
      by (intro stopped[of "the_call w cmd cwd shell oc fs'"])
         (auto simp: bindP_run_command)
  qed
qed

lemmas steps = step_print step_check step_ensure_dirs step_unlink step_run_command

lemmas step_simps = bindP_ret bindP_exit bindP_read_fs bindP_assoc sys_exit_apply ret_apply

lemma csharp_shape:
  assumes "run_csharp_workflow ev root w = (r, w')"
  shows "\<exists>new. calls w' = calls w @ new \<and> workflow_shape CSharpProject root r new"
  using assms unfolding run_csharp_workflow_def workflow_shape_def
  by (auto elim!: steps dest!: last_print split: if_splits
        simp: step_simps passed_def report_a_index_def)

lemma go_shape:
  assumes "run_go_project_workflow ev root w = (r, w')"
  shows "\<exists>new. calls w' = calls w @ new \<and> workflow_shape GoProject root r new"
  using assms unfolding run_go_project_workflow_def workflow_shape_def
  by (auto elim!: steps dest!: last_print split: if_splits
        simp: step_simps passed_def report_a_index_def)

lemma workflow_shape_holds:
  assumes "workflow P ev root w = (r, w')"
  shows "\<exists>new. calls w' = calls w @ new \<and> workflow_shape P root r new"
  using assms by (cases P) (auto dest: csharp_shape go_shape)

lemma step_csharp:
  assumes "bindP (run_csharp_workflow ev root) k w = (r, w')"
  obtains (stopped) new where "r = Exit 1" and "calls w' = calls w @ new"
      and "workflow_shape CSharpProject root (Exit 1) new"
    | (went_on) new w1 where "calls w1 = calls w @ new"
      and "workflow_shape CSharpProject root (Ret ()) new" and "k () w1 = (r, w')"
  using assms
proof (cases rule: bindP_cases)
  case (exit n)
  from csharp_shape[OF exit(1)] obtain new where
    n: "calls w' = calls w @ new" "workflow_shape CSharpProject root (Exit n) new" by blast
  then have "n = 1" by (simp add: workflow_shape_def)
  with n exit show ?thesis by (intro stopped[of new]) auto
next
  case (ret x w1)
  from csharp_shape[OF ret(1)] obtain new where
    "calls w1 = calls w @ new" "workflow_shape CSharpProject root (Ret x) new" by blast
  with ret show ?thesis by (intro went_on[of w1 new]) auto
qed

lemma step_go:
  assumes "bindP (run_go_project_workflow ev root) k w = (r, w')"
  obtains (stopped) new where "r = Exit 1" and "calls w' = calls w @ new"
      and "workflow_shape GoProject root (Exit 1) new"
    | (went_on) new w1 where "calls w1 = calls w @ new"
      and "workflow_shape GoProject root (Ret ()) new" and "k () w1 = (r, w')"
  using assms
proof (cases rule: bindP_cases)
  case (exit n)
  from go_shape[OF exit(1)] obtain new where
    n: "calls w' = calls w @ new" "workflow_shape GoProject root (Exit n) new" by blast
  then have "n = 1" by (simp add: workflow_shape_def)
  with n exit show ?thesis by (intro stopped[of new]) auto
next
  case (ret x w1)
  from go_shape[OF ret(1)] obtain new where
    "calls w1 = calls w @ new" "workflow_shape GoProject root (Ret x) new" by blast
  with ret show ?thesis by (intro went_on[of w1 new]) auto
qed

lemma shape_Ret:
  assumes "workflow_shape P root (Ret ()) new"
  shows "map c_cmd new = map fst (stages P root) \<and>
         list_all2 passed new (map snd (stages P root)) \<and>
         list_all (\<lambda>c. succeeded (c_outcome c)) new"
proof -
  from assms have a: "length new = length (stages P root)"
    and b: "map c_cmd new = take (length new) (map fst (stages P root))"
    and c: "list_all2 passed new (map snd (stages P root))"
    by (auto simp: workflow_shape_def)
  from c have "list_all (\<lambda>c. succeeded (c_outcome c)) new"
    by (auto simp: list_all2_conv_all_nth list_all_length passed_def)
  with a b c show ?thesis by simp
qed

lemma list_all_butlast: "list_all Q xs \<Longrightarrow> list_all Q (butlast xs)"
  by (auto simp: list_all_iff dest: in_set_butlastD)

lemma shape_Exit:
  assumes "workflow_shape P root (Exit 1) new"
  shows "list_all (\<lambda>c. succeeded (c_outcome c)) (butlast new)"
  using assms by (simp add: workflow_shape_def)

lemma main_shape:
  assumes "main ev root w = (r, w')"
  shows "\<exists>new. calls w' = calls w @ new \<and>
           list_all (\<lambda>c. succeeded (c_outcome c)) (butlast new) \<and>
           (r = Exit 1 \<or>
            (r = Ret () \<and> tools_present (files w) root \<and>
             map c_cmd new = map fst (stages CSharpProject root @ stages GoProject root) \<and>
             list_all2 passed new
               (map snd (stages CSharpProject root @ stages GoProject root))))"
  using assms unfolding main_def
  by (auto elim!: step_print step_csharp step_go dest!: last_print shape_Ret shape_Exit
        split: if_splits intro!: list_all2_appendI list_all_butlast
        simp: step_simps tools_present_def butlast_append simp del: stages.simps)

subsection \<open>The first subprocess of a workflow\<close>







text \<open>What it takes to run the model on a concrete filesystem.\<close>

lemmas eval_simps = exec_simps bindP_assoc path_defs root0_def mkdirs.simps
  mkdir_parents.simps os_mkdir_def
  mkdir_exist_ok_def unlink_missing_ok_def file_missing_or_empty_def st_size_def
  succeeded_def path_is_dir_def path_is_file_def path_exists_def

subsection \<open>Paths of the Go project and the report directories\<close>

lemma go_paths_not_ancestors:
  assumes "s = [''Go''] \<or> s = [''Go'', ''coverage.out''] \<or> s = [''Go'', ''coverage.cobertura.xml'']"
  shows "\<forall>d\<in>set (output_dirs GoProject root). \<forall>k. root @ s \<noteq> take k d"
proof -
  have a: "\<forall>k. root @ s \<noteq> take k (GO_PROJECT_REPORTS_FROM_GO_TOOL_DIR root)"
    unfolding GO_PROJECT_REPORTS_FROM_GO_TOOL_DIR_def
    using assms by (intro allI below_root_not_ancestor) auto
  have b: "\<forall>k. root @ s \<noteq> take k (GO_PROJECT_REPORTS_FROM_DOTNET_TOOL_DIR root)"
    unfolding GO_PROJECT_REPORTS_FROM_DOTNET_TOOL_DIR_def
    using assms by (intro allI below_root_not_ancestor) auto
  from a b show ?thesis by simp
qed

section \<open>Concrete runs\<close>

text \<open>
  The model run on the concrete environments: a pipeline whose first subprocess fails, a
  C# workflow whose Go report tool writes no summary, a C# workflow on a filesystem left
  by an earlier run, and the Go workflow with and without the Go project directory.
\<close>

lemma main_env_fail_run:
  "fst (main env_fail root0 w_tools) = Exit 1 \<and>
   map c_cmd (calls (snd (main env_fail root0 w_tools))) = [dotnet_test_command root0] \<and>
   map c_outcome (calls (snd (main env_fail root0 w_tools))) =
     [Completed 1 (''some output'' @ [CHR 0x0A]) ''some error''] \<and>
   c_fs_before (hd (calls (snd (main env_fail root0 w_tools))))
     (GO_PROJECT_REPORTS_FROM_GO_TOOL_DIR root0) = None"
  unfolding main_def run_csharp_workflow_def
  by (simp add: eval_simps env_fail_def w_tools_def fs_tools_def)


lemma csharp_stale_run:
  "fst (run_csharp_workflow env_idle root0 w_stale) = Ret () \<and>
   map c_cmd (calls (snd (run_csharp_workflow env_idle root0 w_stale))) =
     [dotnet_test_command root0, go_report_command_csharp root0,
      dotnet_rg_command_csharp root0] \<and>
   c_fs_before (hd (calls (snd (run_csharp_workflow env_idle root0 w_stale))))
     (CSHARP_COBERTURA_XML_PATH root0) = Some (File 7) \<and>
   c_fs_after (hd (calls (snd (run_csharp_workflow env_idle root0 w_stale))))
     (CSHARP_COBERTURA_XML_PATH root0) = Some (File 7) \<and>
   (Stdout, Generated ''C# Cobertura XML'' (CSHARP_COBERTURA_XML_PATH root0))
     \<in> set (out (snd (run_csharp_workflow env_idle root0 w_stale)))"
  unfolding run_csharp_workflow_def
  by (simp add: eval_simps env_idle_def w_stale_def fs_repo_def check_line_def)

lemma go_no_project_run:
  "\<not> path_exists (files w_no_go) (GO_PROJECT_TO_TEST_PATH root0) \<and>
   fst (run_go_project_workflow env_fail root0 w_no_go) = Exit 1 \<and>
   calls (snd (run_go_project_workflow env_fail root0 w_no_go)) = [] \<and>
   last (out (snd (run_go_project_workflow env_fail root0 w_no_go))) =
     (Stderr, GoProjectNotFound (GO_PROJECT_TO_TEST_PATH root0))"
  unfolding run_go_project_workflow_def
  by (simp add: eval_simps env_fail_def w_no_go_def)


section \<open>The claims\<close>






text \<open>
  C3. For every file path, \<open>check_file_generated\<close> returns true if and only if the path
  exists and its size is greater than zero bytes; it returns false when the path does not
  exist or has zero bytes, and it never ends the process itself. It starts no subprocess
  and leaves the filesystem as it was.
\<close>

theorem check_file_generated_iff:
  "fst (check_file_generated p d w) =
     Ret (path_exists (files w) p \<and> (\<exists>n. files w p = Some n \<and> 0 < st_size n)) \<and>
   files (snd (check_file_generated p d w)) = files w \<and>
   calls (snd (check_file_generated p d w)) = calls w"
  by (auto simp: check_file_generated_def file_missing_or_empty_def path_exists_def
      bindP_print ret_apply split: option.splits)

theorem check_file_generated_iff_witness:
  "fst (check_file_generated [''repo'', ''go_report_generator'', ''cmd'', ''main.go'']
          ''a file'' w_tools) = Ret True \<and>
   fst (check_file_generated [''repo'', ''nowhere''] ''no file'' w_tools) = Ret False \<and>
   fst (check_file_generated [''repo'', ''empty''] ''an empty file''
          (w_tools\<lparr>files := fs_tools([''repo'', ''empty''] \<mapsto> File 0)\<rparr>)) = Ret False"
  using check_file_generated_iff [of "[''repo'', ''go_report_generator'', ''cmd'', ''main.go'']"
      "''a file''" w_tools]
    check_file_generated_iff [of "[''repo'', ''nowhere'']" "''no file''" w_tools]
    check_file_generated_iff [of "[''repo'', ''empty'']" "''an empty file''"
      "w_tools\<lparr>files := fs_tools([''repo'', ''empty''] \<mapsto> File 0)\<rparr>"]
  by (simp add: w_tools_def fs_tools_def path_exists_def st_size_def)

text \<open>
  C4. When the shell flag and the kind of the command disagree (\<open>shell=True\<close> with a
  list, \<open>shell=False\<close> with a string), \<open>run_command\<close> prints one diagnostic and ends the
  process with exit code 1: no subprocess is started and the filesystem is untouched.
\<close>

theorem run_command_mode_mismatch:
  "(shell \<and> \<not> is_string_command cmd) \<or> (\<not> shell \<and> is_string_command cmd) \<Longrightarrow>
   run_command ev cmd cwd name shell w =
     (Exit 1, w\<lparr>out := out w @
        [(Stderr, if shell then ShellNeedsString cmd else NonShellNeedsList cmd)]\<rparr>)"
  by (auto simp: run_command_def bindP_print sys_exit_apply)

theorem run_command_mode_mismatch_witness:
  "run_command env_fail (CmdList [''go'', ''test'']) None ''go test'' True w_tools =
     (Exit 1, w_tools\<lparr>out := [(Stderr, ShellNeedsString (CmdList [''go'', ''test'']))]\<rparr>) \<and>
   run_command env_fail (CmdStr ''go test'') None ''go test'' False w_tools =
     (Exit 1, w_tools\<lparr>out := [(Stderr, NonShellNeedsList (CmdStr ''go test''))]\<rparr>)"
  using run_command_mode_mismatch [of True "CmdList [''go'', ''test'']" env_fail None
      "''go test''" w_tools]
    run_command_mode_mismatch [of False "CmdStr ''go test''" env_fail None
      "''go test''" w_tools]
  by (simp add: is_string_command_def w_tools_def)





text \<open>
  C7. The exit status of the process is 1 or 0, and 0 only if the preflight found both
  tools, all seven commands of the two workflows ran in order and succeeded, and every
  artifact was there after its command. \<open>run_command\<close> returns only when the mode fits the
  command and the subprocess succeeded, and otherwise (configuration error, executable not
  found, another exception, non-zero return code) ends the process with code 1;
  \<open>ensure_dir\<close> returns only when the directory could be made and otherwise ends the
  process with code 1; a workflow ends the process with no other code than 1.
\<close>

theorem exit_status_zero_or_one:
  "(exit_status (fst (main ev root w)) = 1 \<or>
    (exit_status (fst (main ev root w)) = 0 \<and> tools_present (files w) root \<and>
     (\<exists>new. calls (snd (main ev root w)) = calls w @ new \<and>
        map c_cmd new = map fst (stages CSharpProject root @ stages GoProject root) \<and>
        list_all2 passed new
          (map snd (stages CSharpProject root @ stages GoProject root))))) \<and>
   fst (run_command ev cmd cwd name shell w0) =
     (if shell = is_string_command cmd \<and>
         succeeded (fst (run_proc ev (calls w0) (files w0) cmd cwd shell))
      then Ret (the_process cmd (fst (run_proc ev (calls w0) (files w0) cmd cwd shell)))
      else Exit 1) \<and>
   fst (ensure_dir ev p w0) =
     (case mkdir_parents (new_dir_size ev) p (files w0) of
        Inr _ \<Rightarrow> Ret () | Inl _ \<Rightarrow> Exit 1) \<and>
   (fst (workflow P ev root w0) = Exit 1 \<or> fst (workflow P ev root w0) = Ret ())"
proof -
  obtain r w1 where m: "main ev root w = (r, w1)" by (cases "main ev root w") auto
  from main_shape[OF m] m have a:
    "exit_status (fst (main ev root w)) = 1 \<or>
    (exit_status (fst (main ev root w)) = 0 \<and> tools_present (files w) root \<and>
     (\<exists>new. calls (snd (main ev root w)) = calls w @ new \<and>
        map c_cmd new = map fst (stages CSharpProject root @ stages GoProject root) \<and>
        list_all2 passed new
          (map snd (stages CSharpProject root @ stages GoProject root))))"
    by (auto simp: exit_status_def)
  have b: "fst (run_command ev cmd cwd name shell w0) =
     (if shell = is_string_command cmd \<and>
         succeeded (fst (run_proc ev (calls w0) (files w0) cmd cwd shell))
      then Ret (the_process cmd (fst (run_proc ev (calls w0) (files w0) cmd cwd shell)))
      else Exit 1)"
  proof (cases "shell = is_string_command cmd")
    case True
    obtain oc fs' where "run_proc ev (calls w0) (files w0) cmd cwd shell = (oc, fs')"
      by (cases "run_proc ev (calls w0) (files w0) cmd cwd shell") auto
    with True show ?thesis by (simp add: run_command_apply)
  next
    case False
    then show ?thesis by (simp add: run_command_mismatch)
  qed
  have c: "fst (ensure_dir ev p w0) =
     (case mkdir_parents (new_dir_size ev) p (files w0) of
        Inr _ \<Rightarrow> Ret () | Inl _ \<Rightarrow> Exit 1)"
    by (simp add: ensure_dir_cases split: sum.splits)
  obtain r2 w2 where wf: "workflow P ev root w0 = (r2, w2)"
    by (cases "workflow P ev root w0") auto
  from workflow_shape_holds[OF wf] have "r2 = Exit 1 \<or> r2 = Ret ()"
    by (auto simp: workflow_shape_def)
  with wf have d: "fst (workflow P ev root w0) = Exit 1 \<or> fst (workflow P ev root w0) = Ret ()"
    by simp
  from a b c d show ?thesis by blast
qed

theorem exit_status_zero_or_one_witness:
  "exit_status (fst (main env_fail root0 w_tools)) = 1 \<and>
   fst (run_command env_fail (go_test_command root0) None ''go test'' False w_repo) = Exit 1 \<and>
   fst (ensure_dir env_fail [''repo'', ''reports''] w_repo) = Ret () \<and>
   fst (workflow CSharpProject env_idle root0 w_stale) = Ret ()"
  using exit_status_zero_or_one [of env_fail root0 w_tools "go_test_command root0" None
      "''go test''" False w_repo "[''repo'', ''reports'']" CSharpProject]
    main_env_fail_run csharp_stale_run
  by (simp add: exit_status_def env_fail_def w_repo_def fs_repo_def succeeded_def
      mkdir_parents.simps os_mkdir_def)



text \<open>
  C9. When the Go project directory does not exist, the Go workflow ends the process
  with exit code 1 without starting any subprocess and without touching the two coverage
  files: either ensuring a report directory failed, or both report directories are in
  place and the last line printed says that the Go project was not found.
\<close>

theorem go_project_missing_exits:
  assumes "\<not> path_exists (files w) (GO_PROJECT_TO_TEST_PATH root)"
  shows "\<exists>w'. run_go_project_workflow ev root w = (Exit 1, w') \<and>
           calls w' = calls w \<and>
           files w' (GO_PROJECT_NATIVE_COVERAGE_FILE root) =
             files w (GO_PROJECT_NATIVE_COVERAGE_FILE root) \<and>
           files w' (GO_PROJECT_COBERTURA_XML_FILE root) =
             files w (GO_PROJECT_COBERTURA_XML_FILE root) \<and>
           ((last (out w') = (Stderr, GoProjectNotFound (GO_PROJECT_TO_TEST_PATH root)) \<and>
             list_all (path_is_dir (files w')) (output_dirs GoProject root)) \<or>
            (\<exists>d e. last (out w') = (Stderr, ErrorCreatingDir d e)))"
proof (cases "mkdirs (new_dir_size ev) (output_dirs GoProject root) (files w)")
  case (Inl x)
  obtain d e fs1 where x: "x = (d, e, fs1)" by (cases x) auto
  have "fs1 (GO_PROJECT_NATIVE_COVERAGE_FILE root) = files w (GO_PROJECT_NATIVE_COVERAGE_FILE root)"
    using mkdirs_failed_extends[OF Inl[unfolded x]]
      go_paths_not_ancestors[of "[''Go'', ''coverage.out'']" root]
    by (simp add: path_defs)
  moreover have "fs1 (GO_PROJECT_COBERTURA_XML_FILE root) =
      files w (GO_PROJECT_COBERTURA_XML_FILE root)"
    using mkdirs_failed_extends[OF Inl[unfolded x]]
      go_paths_not_ancestors[of "[''Go'', ''coverage.cobertura.xml'']" root]
    by (simp add: path_defs)
  ultimately show ?thesis
    using Inl x unfolding run_go_project_workflow_def
    by (simp add: exec_simps)
next
  case (Inr fs1)
  have g: "fs1 (GO_PROJECT_TO_TEST_PATH root) = files w (GO_PROJECT_TO_TEST_PATH root)"
    using mkdirs_only[OF Inr] go_paths_not_ancestors[of "[''Go'']" root]
    by (simp add: path_defs)
  have n: "fs1 (GO_PROJECT_NATIVE_COVERAGE_FILE root) = files w (GO_PROJECT_NATIVE_COVERAGE_FILE root)"
    using mkdirs_only[OF Inr] go_paths_not_ancestors[of "[''Go'', ''coverage.out'']" root]
    by (simp add: path_defs)
  have x: "fs1 (GO_PROJECT_COBERTURA_XML_FILE root) =
      files w (GO_PROJECT_COBERTURA_XML_FILE root)"
    using mkdirs_only[OF Inr]
      go_paths_not_ancestors[of "[''Go'', ''coverage.cobertura.xml'']" root]
    by (simp add: path_defs)
  from g assms have ne: "\<not> path_exists fs1 (GO_PROJECT_TO_TEST_PATH root)"
    by (simp add: path_exists_def)
  have dirs: "list_all (path_is_dir fs1) (output_dirs GoProject root)"
    using mkdirs_all_dirs[OF Inr] .
  show ?thesis
    using Inr ne n x dirs unfolding run_go_project_workflow_def
    by (simp add: exec_simps bindP_assoc)
qed

theorem go_project_missing_exits_witness:
  "\<not> path_exists (files w_no_go) (GO_PROJECT_TO_TEST_PATH root0) \<and>
   fst (run_go_project_workflow env_fail root0 w_no_go) = Exit 1 \<and>
   calls (snd (run_go_project_workflow env_fail root0 w_no_go)) = [] \<and>
   list_all (path_is_dir (files (snd (run_go_project_workflow env_fail root0 w_no_go))))
     (output_dirs GoProject root0)"
proof -
  have a: "\<not> path_exists (files w_no_go) (GO_PROJECT_TO_TEST_PATH root0)"
    using go_no_project_run by simp
  from go_project_missing_exits [OF a, of env_fail] go_no_project_run
  show ?thesis by auto
qed



end
